theory Spec2Isabelle
  imports Main "HOL-Library.Word"
begin

section \<open>JSON values and request bodies\<close>

text \<open>
  The service of \<^verbatim>\<open>server/server.js\<close> speaks JSON: \<^verbatim>\<open>bodyParser.json()\<close> turns a
  request body into a JavaScript object, and \<^verbatim>\<open>res.send\<close> serialises one. Numbers are
  kept to the integers (timestamps are integers).
\<close>

datatype json =
    JNull
  | JBool bool
  | JNum int
  | JStr string
  | JArr "json list"
  | JObj "(string \<times> json) list"

text \<open>A parsed request body \<^verbatim>\<open>req.body\<close>: an object, its keys unique; an absent key
  reads as \<^verbatim>\<open>undefined\<close>, here \<open>None\<close>.\<close>

type_synonym jsobj = "string \<rightharpoonup> json"

text \<open>lodash \<^verbatim>\<open>_.pick(object, keys)\<close>: the object of the listed keys that \<^verbatim>\<open>object\<close> has.\<close>

definition pick :: "jsobj \<Rightarrow> string list \<Rightarrow> jsobj" where
  "pick obj ks = obj |` set ks"

text \<open>Reading a key of a serialised object.\<close>

fun json_get :: "string \<Rightarrow> json \<Rightarrow> json option" where
  "json_get k (JObj kvs) = map_of kvs k"
| "json_get k _ = None"

section \<open>Object identifiers\<close>

text \<open>
  A MongoDB ObjectId is 12 bytes. \<^verbatim>\<open>ObjectId.isValid\<close> of the driver accepts, of the
  strings, those of 12 characters and those of 24 hexadecimal digits; the constructor
  (which mongoose uses to cast the \<^verbatim>\<open>_id\<close> of a query) reads the former as raw bytes and
  the latter as hexadecimal, and raises on every other string. \<^verbatim>\<open>toHexString\<close> writes
  the 24 lower-case digits. A character of a string is here a code unit below 256, which
  as one of the 12 raw characters of an id is one byte.
\<close>

type_synonym objectid = "96 word"

definition hexchar :: "nat \<Rightarrow> char" where
  "hexchar n = ''0123456789abcdef'' ! (n mod 16)"

definition hexval :: "char \<Rightarrow> nat option" where
  "hexval c =
     (let n = (of_char c :: nat) in
      if 48 \<le> n \<and> n \<le> 57 then Some (n - 48)
      else if 97 \<le> n \<and> n \<le> 102 then Some (n - 87)
      else if 65 \<le> n \<and> n \<le> 70 then Some (n - 55)
      else None)"

definition is_hex :: "char \<Rightarrow> bool" where
  "is_hex c = (hexval c \<noteq> None)"

fun toHex :: "nat \<Rightarrow> nat \<Rightarrow> string" where
  "toHex 0 n = []"
| "toHex (Suc k) n = toHex k (n div 16) @ [hexchar n]"

definition fromHex :: "string \<Rightarrow> nat" where
  "fromHex s = foldl (\<lambda>a c. 16 * a + (case hexval c of Some v \<Rightarrow> v | None \<Rightarrow> 0)) 0 s"

definition fromBytes :: "string \<Rightarrow> nat" where
  "fromBytes s = foldl (\<lambda>a c. 256 * a + of_char c) 0 s"

definition isValid :: "string \<Rightarrow> bool" where
  "isValid s = (length s = 12 \<or> (length s = 24 \<and> list_all is_hex s))"

definition castObjectId :: "string \<Rightarrow> objectid option" where
  "castObjectId s =
     (if length s = 12 then Some (of_nat (fromBytes s))
      else if length s = 24 \<and> list_all is_hex s then Some (of_nat (fromHex s))
      else None)"

definition toHexString :: "objectid \<Rightarrow> string" where
  "toHexString oid = toHex 24 (unat oid)"

section \<open>The Express response object\<close>

text \<open>
  What the client receives is what the first \<^verbatim>\<open>send\<close> put on the wire. \<^verbatim>\<open>res.status\<close>
  only sets the status code of the object. A \<^verbatim>\<open>send\<close> with a body sets the content type
  first, and setting a header of a response already sent throws; a \<^verbatim>\<open>send()\<close> with no
  body sets none, and on a response already sent it changes nothing.
\<close>

record http_response =
  status :: nat
  headers :: "(string \<times> string) list"
  body :: "json option"

record res =
  statusCode :: nat
  hdrs :: "(string \<times> string) list"
  wire :: "http_response option"

datatype completion = Returned res | Thrown res

definition fresh_res :: res where
  "fresh_res = \<lparr>statusCode = 200, hdrs = [], wire = None\<rparr>"

definition res_status :: "nat \<Rightarrow> res \<Rightarrow> res" where
  "res_status n r = r\<lparr>statusCode := n\<rparr>"

definition res_header :: "string \<Rightarrow> string \<Rightarrow> res \<Rightarrow> completion" where
  "res_header k v r =
     (case wire r of
        None \<Rightarrow> Returned (r\<lparr>hdrs := (k, v) # hdrs r\<rparr>)
      | Some w \<Rightarrow> Thrown r)"

definition res_send :: "json option \<Rightarrow> res \<Rightarrow> completion" where
  "res_send b r =
     (case wire r of
        None \<Rightarrow> Returned (r\<lparr>wire := Some \<lparr>status = statusCode r, headers = hdrs r, body = b\<rparr>\<rparr>)
      | Some w \<Rightarrow> (if b = None then Returned r else Thrown r))"

text \<open>The response object after a statement, whether it returned or threw: for the places
  where nothing catches (an exception out of a \<^verbatim>\<open>.catch\<close> callback is an unhandled
  rejection).\<close>

fun the_res :: "completion \<Rightarrow> res" where
  "the_res (Returned r) = r"
| "the_res (Thrown r) = r"

definition wire_status :: "res \<Rightarrow> nat option" where
  "wire_status r = map_option status (wire r)"

definition wire_body :: "res \<Rightarrow> json option" where
  "wire_body r = (case wire r of None \<Rightarrow> None | Some w \<Rightarrow> body w)"

definition wire_header :: "string \<Rightarrow> res \<Rightarrow> string option" where
  "wire_header k r = (case wire r of None \<Rightarrow> None | Some w \<Rightarrow> map_of (headers w) k)"

section \<open>The document store\<close>

text \<open>A stored todo, with the version key \<^verbatim>\<open>__v\<close> that mongoose keeps in every document.\<close>

record todo =
  todo_id :: objectid
  todo_text :: string
  completed :: bool
  completedAt :: "int option"
  todo_v :: int

record user =
  user_id :: objectid
  email :: string
  password :: string
  tokens :: "(string \<times> string) list"

datatype store_error =
    ValidationError
  | CastError
  | DuplicateKey
  | DuplicateEmail
  | ImmutableField
  | StoreUnavailable
  | InvalidCredentials
  | Unauthenticated

datatype store_op =
    TodoSave
  | TodoFind
  | TodoFindById string
  | TodoFindByIdAndRemove string
  | TodoFindByIdAndUpdate string
  | UserSave
  | UserFindByCredentials
  | UserFindByToken

text \<open>
  The state of the store: the two collections in insertion order, whether the store
  answers at all, and two logs. \<open>calls\<close> holds the operations the handlers have called on
  the models, each with whether it was rejected. \<open>accesses\<close> holds the operations that
  were sent on to the store: a call that the model refuses on its own, when it casts or
  validates its arguments, sends nothing.
\<close>

record db =
  todos :: "todo list"
  users :: "user list"
  online :: bool
  calls :: "(store_op \<times> bool) list"
  accesses :: "store_op list"

text \<open>What the handlers take from outside: the clock (\<^verbatim>\<open>new Date().getTime()\<close>), the
  identifier generated for a new document, and the primitives and constants of the user
  model, which are not part of this service.\<close>

record deps =
  clock :: int
  gen_id :: objectid
  is_email :: "string \<Rightarrow> bool"
  min_password :: nat
  bcrypt_hash :: "string \<Rightarrow> string"
  bcrypt_compare :: "string \<Rightarrow> string \<Rightarrow> bool"
  jwt_sign :: "objectid \<Rightarrow> string \<Rightarrow> string"
  jwt_verify :: "string \<Rightarrow> objectid option"

definition logged :: "store_op \<Rightarrow> db \<times> (store_error + 'a) \<Rightarrow> db \<times> (store_error + 'a)" where
  "logged opn out =
     (case out of (db1, v) \<Rightarrow> (db1\<lparr>calls := calls db1 @ [(opn, isl v)]\<rparr>, v))"

definition access :: "store_op \<Rightarrow> db \<Rightarrow> db" where
  "access opn db = db\<lparr>accesses := accesses db @ [opn]\<rparr>"

definition error_name :: "store_error \<Rightarrow> string" where
  "error_name e =
     (case e of
        ValidationError \<Rightarrow> ''ValidationError''
      | CastError \<Rightarrow> ''CastError''
      | DuplicateKey \<Rightarrow> ''MongoError''
      | DuplicateEmail \<Rightarrow> ''MongoError''
      | ImmutableField \<Rightarrow> ''MongoError''
      | StoreUnavailable \<Rightarrow> ''MongoNetworkError''
      | InvalidCredentials \<Rightarrow> ''InvalidCredentials''
      | Unauthenticated \<Rightarrow> ''Unauthenticated'')"

definition error_json :: "store_error \<Rightarrow> json" where
  "error_json e = JObj [(''name'', JStr (error_name e))]"

subsection \<open>The Todo model\<close>

text \<open>Trimming takes the white space off both ends. Of the characters below 256,
  JavaScript's \<^verbatim>\<open>trim\<close> counts as white space the blank, the control characters from tab
  to carriage return, and the no-break space.\<close>

definition is_space :: "char \<Rightarrow> bool" where
  "is_space c =
     (c \<in> set [CHR 0x09, CHR 0x0A, CHR 0x0B, CHR 0x0C, CHR 0x0D, CHR 0x20, CHR 0xA0])"

definition trim :: "string \<Rightarrow> string" where
  "trim s = rev (dropWhile is_space (rev (dropWhile is_space s)))"

datatype 'a casted = Absent | Value 'a | CastFail

text \<open>The schema of \<^verbatim>\<open>models/todo.js\<close> is not among the sources. The spec's data model
  has \<^verbatim>\<open>text\<close> a non-empty string, required and trimmed, \<^verbatim>\<open>completed\<close> a boolean that
  defaults to false and \<^verbatim>\<open>completedAt\<close> a nullable timestamp; input is checked for
  presence and type only. Besides these a mongoose schema has the paths \<^verbatim>\<open>_id\<close> and
  \<^verbatim>\<open>__v\<close>. The next functions cast a value to its path; \<open>Absent\<close> is a key that is not
  there.\<close>

text \<open>Modelled from the spec: the path \<^verbatim>\<open>text\<close> of the missing schema, a trimmed string.\<close>

definition cast_text :: "json option \<Rightarrow> string casted" where
  "cast_text v =
     (case v of
        None \<Rightarrow> Absent
      | Some (JStr s) \<Rightarrow> Value (trim s)
      | Some _ \<Rightarrow> CastFail)"

text \<open>Modelled from the spec: the path \<^verbatim>\<open>completed\<close> of the missing schema, a boolean.\<close>

definition cast_completed :: "json option \<Rightarrow> bool casted" where
  "cast_completed v =
     (case v of
        None \<Rightarrow> Absent
      | Some (JBool b) \<Rightarrow> Value b
      | Some _ \<Rightarrow> CastFail)"

text \<open>Modelled from the spec: the path \<^verbatim>\<open>completedAt\<close> of the missing schema, a
  timestamp or null.\<close>

definition cast_completedAt :: "json option \<Rightarrow> int option casted" where
  "cast_completedAt v =
     (case v of
        None \<Rightarrow> Absent
      | Some JNull \<Rightarrow> Value None
      | Some (JNum n) \<Rightarrow> Value (Some n)
      | Some _ \<Rightarrow> CastFail)"

text \<open>The path \<^verbatim>\<open>_id\<close> of every schema: an ObjectId, cast from a string as a query
  casts it.\<close>

definition cast_id :: "json option \<Rightarrow> objectid casted" where
  "cast_id v =
     (case v of
        None \<Rightarrow> Absent
      | Some (JStr s) \<Rightarrow> (case castObjectId s of Some oid \<Rightarrow> Value oid | None \<Rightarrow> CastFail)
      | Some _ \<Rightarrow> CastFail)"

text \<open>The path \<^verbatim>\<open>__v\<close> of every schema: a number.\<close>

definition cast_v :: "json option \<Rightarrow> int casted" where
  "cast_v v =
     (case v of
        None \<Rightarrow> Absent
      | Some (JNum n) \<Rightarrow> Value n
      | Some _ \<Rightarrow> CastFail)"

text \<open>Modelled from the spec: the JSON form of a document of the missing schema, the
  todo representation of the spec with the identifier under \<^verbatim>\<open>_id\<close>, where the tests
  read it.\<close>

definition todo_json :: "todo \<Rightarrow> json" where
  "todo_json t =
     JObj [(''_id'', JStr (toHexString (todo_id t))),
           (''text'', JStr (todo_text t)),
           (''completed'', JBool (completed t)),
           (''completedAt'', (case completedAt t of None \<Rightarrow> JNull | Some n \<Rightarrow> JNum n))]"

definition todo_opt_json :: "todo option \<Rightarrow> json" where
  "todo_opt_json t = (case t of None \<Rightarrow> JNull | Some x \<Rightarrow> todo_json x)"

definition by_id :: "objectid \<Rightarrow> todo \<Rightarrow> bool" where
  "by_id oid t = (todo_id t = oid)"

text \<open>Modelled from the spec: \<^verbatim>\<open>new Todo({text}).save()\<close> of the missing
  \<^verbatim>\<open>models/todo.js\<close>. \<^verbatim>\<open>create(text)\<close> fails with ValidationError if the text is empty
  (after the trimming of the data model), and persists the Todo with a generated id and
  the defaults. Validation is the model's own: a document that fails it is not sent. The
  store keeps \<^verbatim>\<open>_id\<close> unique.\<close>

definition Todo_save :: "deps \<Rightarrow> json option \<Rightarrow> db \<Rightarrow> db \<times> (store_error + todo)" where
  "Todo_save d txt db =
     logged TodoSave
       (case cast_text txt of
          Value s \<Rightarrow>
            if s = [] then (db, Inl ValidationError)
            else
              (let db1 = access TodoSave db
               in if \<not> online db1 then (db1, Inl StoreUnavailable)
                  else if find (by_id (gen_id d)) (todos db1) \<noteq> None
                  then (db1, Inl DuplicateKey)
                  else
                    (let t = \<lparr>todo_id = gen_id d, todo_text = s, completed = False,
                              completedAt = None, todo_v = 0\<rparr>
                     in (db1\<lparr>todos := todos db1 @ [t]\<rparr>, Inr t)))
        | _ \<Rightarrow> (db, Inl ValidationError))"

text \<open>The queries are mongoose's, on the collection of the model. \<^verbatim>\<open>Todo.find()\<close>: all
  the documents.\<close>

definition Todo_find :: "db \<Rightarrow> db \<times> (store_error + todo list)" where
  "Todo_find db =
     logged TodoFind
       (let db1 = access TodoFind db
        in if \<not> online db1 then (db1, Inl StoreUnavailable) else (db1, Inr (todos db1)))"

text \<open>\<^verbatim>\<open>Todo.findById(id)\<close>: the query casts \<^verbatim>\<open>id\<close> to an ObjectId, and is rejected with a
  CastError, nothing sent, when it cannot; else it resolves to the document, or to
  \<^verbatim>\<open>null\<close> when there is none.\<close>

definition Todo_findById :: "string \<Rightarrow> db \<Rightarrow> db \<times> (store_error + todo option)" where
  "Todo_findById ident db =
     logged (TodoFindById ident)
       (case castObjectId ident of
          None \<Rightarrow> (db, Inl CastError)
        | Some oid \<Rightarrow>
            (let db1 = access (TodoFindById ident) db
             in if \<not> online db1 then (db1, Inl StoreUnavailable)
                else (db1, Inr (find (by_id oid) (todos db1)))))"

text \<open>\<^verbatim>\<open>Todo.findByIdAndRemove(id)\<close>: removes the document and resolves to it.\<close>

definition Todo_findByIdAndRemove :: "string \<Rightarrow> db \<Rightarrow> db \<times> (store_error + todo option)" where
  "Todo_findByIdAndRemove ident db =
     logged (TodoFindByIdAndRemove ident)
       (case castObjectId ident of
          None \<Rightarrow> (db, Inl CastError)
        | Some oid \<Rightarrow>
            (let db1 = access (TodoFindByIdAndRemove ident) db
             in if \<not> online db1 then (db1, Inl StoreUnavailable)
                else
                  (case find (by_id oid) (todos db1) of
                     None \<Rightarrow> (db1, Inr None)
                   | Some t \<Rightarrow> (db1\<lparr>todos := remove1 t (todos db1)\<rparr>, Inr (Some t)))))"

text \<open>The update \<^verbatim>\<open>{$set: body}\<close> cast to the schema, path by path, or \<open>None\<close> when a value
  does not cast. Every path of the schema that the object has is set, \<^verbatim>\<open>_id\<close> and
  \<^verbatim>\<open>__v\<close> among them; a key that is not a path of the schema is dropped, and a path that
  is absent leaves its field alone.\<close>

record todo_set =
  set_id :: "objectid casted"
  set_text :: "string casted"
  set_completed :: "bool casted"
  set_completedAt :: "int option casted"
  set_v :: "int casted"

definition cast_set :: "jsobj \<Rightarrow> todo_set option" where
  "cast_set s =
     (let u = \<lparr>set_id = cast_id (s ''_id''),
               set_text = cast_text (s ''text''),
               set_completed = cast_completed (s ''completed''),
               set_completedAt = cast_completedAt (s ''completedAt''),
               set_v = cast_v (s ''__v'')\<rparr>
      in if set_id u = CastFail \<or> set_text u = CastFail \<or> set_completed u = CastFail
            \<or> set_completedAt u = CastFail \<or> set_v u = CastFail
         then None else Some u)"

text \<open>The update applied to a document. The store does not let \<^verbatim>\<open>_id\<close> change: an
  update that sets another \<^verbatim>\<open>_id\<close> than the document has is rejected, \<open>None\<close> here.\<close>

definition apply_set :: "todo_set \<Rightarrow> todo \<Rightarrow> todo option" where
  "apply_set u t =
     (if (case set_id u of Value oid \<Rightarrow> oid \<noteq> todo_id t | _ \<Rightarrow> False) then None
      else Some (t\<lparr>todo_text := (case set_text u of Value x \<Rightarrow> x | _ \<Rightarrow> todo_text t),
                    completed := (case set_completed u of Value x \<Rightarrow> x | _ \<Rightarrow> completed t),
                    completedAt :=
                      (case set_completedAt u of Value x \<Rightarrow> x | _ \<Rightarrow> completedAt t),
                    todo_v := (case set_v u of Value x \<Rightarrow> x | _ \<Rightarrow> todo_v t)\<rparr>))"

fun update_first :: "('a \<Rightarrow> bool) \<Rightarrow> ('a \<Rightarrow> 'a) \<Rightarrow> 'a list \<Rightarrow> 'a list" where
  "update_first P f [] = []"
| "update_first P f (x # xs) = (if P x then f x # xs else x # update_first P f xs)"

text \<open>\<^verbatim>\<open>Todo.findByIdAndUpdate(id, {$set: body}, {new: true})\<close>: casts the id and the update,
  and is rejected with a CastError, nothing sent, when one does not cast; else it sets
  the fields of the document and resolves to the document as updated, or to \<^verbatim>\<open>null\<close>
  when there is none.\<close>

definition Todo_findByIdAndUpdate :: "string \<Rightarrow> jsobj \<Rightarrow> db \<Rightarrow> db \<times> (store_error + todo option)" where
  "Todo_findByIdAndUpdate ident s db =
     logged (TodoFindByIdAndUpdate ident)
       (case castObjectId ident of
          None \<Rightarrow> (db, Inl CastError)
        | Some oid \<Rightarrow>
            (case cast_set s of
               None \<Rightarrow> (db, Inl CastError)
             | Some u \<Rightarrow>
                 (let db1 = access (TodoFindByIdAndUpdate ident) db
                  in if \<not> online db1 then (db1, Inl StoreUnavailable)
                     else
                       (case find (by_id oid) (todos db1) of
                          None \<Rightarrow> (db1, Inr None)
                        | Some t \<Rightarrow>
                            (case apply_set u t of
                               None \<Rightarrow> (db1, Inl ImmutableField)
                             | Some t1 \<Rightarrow>
                                 (db1\<lparr>todos := update_first (by_id oid) (\<lambda>x. t1) (todos db1)\<rparr>,
                                  Inr (Some t1)))))))"

subsection \<open>The User model\<close>

text \<open>A user document in memory: what \<^verbatim>\<open>new User(body)\<close> builds or a query loads. A
  new document holds the password as given; \<^verbatim>\<open>save\<close> replaces it by its hash.
  \<open>doc_invalid\<close> says that a value given for \<^verbatim>\<open>_id\<close> or \<^verbatim>\<open>tokens\<close> did not cast, which
  validation then reports.\<close>

record user_doc =
  doc_id :: objectid
  doc_email :: "string casted"
  doc_password :: "string casted"
  doc_tokens :: "(string \<times> string) list"
  doc_isNew :: bool
  doc_invalid :: bool

text \<open>Modelled from the spec: the paths \<^verbatim>\<open>email\<close> and \<^verbatim>\<open>password\<close> of the missing
  schema of \<^verbatim>\<open>models/user.js\<close>, strings both.\<close>

definition cast_string :: "json option \<Rightarrow> string casted" where
  "cast_string v =
     (case v of
        None \<Rightarrow> Absent
      | Some (JStr s) \<Rightarrow> Value s
      | Some _ \<Rightarrow> CastFail)"

text \<open>Modelled from the spec: the path \<^verbatim>\<open>tokens\<close> of the missing schema of
  \<^verbatim>\<open>models/user.js\<close>, a sequence of pairs of an access scope and a token.\<close>

fun cast_token :: "json \<Rightarrow> (string \<times> string) option" where
  "cast_token (JObj kvs) =
     (case (map_of kvs ''access'', map_of kvs ''token'') of
        (Some (JStr a), Some (JStr t)) \<Rightarrow> Some (a, t)
      | _ \<Rightarrow> None)"
| "cast_token _ = None"

definition cast_tokens :: "json option \<Rightarrow> (string \<times> string) list casted" where
  "cast_tokens v =
     (case v of
        None \<Rightarrow> Absent
      | Some (JArr js) \<Rightarrow>
          (if list_all (\<lambda>j. cast_token j \<noteq> None) js
           then Value (map (\<lambda>j. case cast_token j of Some p \<Rightarrow> p | None \<Rightarrow> ([], [])) js)
           else CastFail)
      | Some _ \<Rightarrow> CastFail)"

text \<open>The document a query loads from a stored user.\<close>

definition load_user :: "user \<Rightarrow> user_doc" where
  "load_user u =
     \<lparr>doc_id = user_id u, doc_email = Value (email u), doc_password = Value (password u),
      doc_tokens = tokens u, doc_isNew = False, doc_invalid = False\<rparr>"

text \<open>Modelled from the spec: \<^verbatim>\<open>new User(body)\<close> of the missing \<^verbatim>\<open>models/user.js\<close>: a
  user has an id, an email, a password and a sequence of issued tokens. A mongoose
  document takes every path of the schema that its argument has: an \<^verbatim>\<open>_id\<close> and
  \<^verbatim>\<open>tokens\<close> given are the document's, and only where they are absent is the id
  generated and the token list empty.\<close>

definition User_new :: "deps \<Rightarrow> jsobj \<Rightarrow> user_doc" where
  "User_new d b =
     \<lparr>doc_id = (case cast_id (b ''_id'') of Value oid \<Rightarrow> oid | _ \<Rightarrow> gen_id d),
      doc_email = cast_string (b ''email''),
      doc_password = cast_string (b ''password''),
      doc_tokens = (case cast_tokens (b ''tokens'') of Value ts \<Rightarrow> ts | _ \<Rightarrow> []),
      doc_isNew = True,
      doc_invalid = (cast_id (b ''_id'') = CastFail \<or> cast_tokens (b ''tokens'') = CastFail)\<rparr>"

text \<open>Modelled from the spec: the JSON form of a user of the missing \<^verbatim>\<open>models/user.js\<close>.
  Responses carry the user record without its password, and the token goes in the
  header, not in the body: the body is the id and the email.\<close>

definition user_json :: "user_doc \<Rightarrow> json" where
  "user_json u =
     JObj [(''_id'', JStr (toHexString (doc_id u))),
           (''email'', (case doc_email u of Value e \<Rightarrow> JStr e | _ \<Rightarrow> JNull))]"

definition has_id :: "objectid \<Rightarrow> user \<Rightarrow> bool" where
  "has_id oid u = (user_id u = oid)"

text \<open>Modelled from the spec: \<^verbatim>\<open>user.save()\<close> of the missing \<^verbatim>\<open>models/user.js\<close>. Signup
  fails with ValidationError if the email is malformed or the password too short, with
  DuplicateEmail if the email is registered, and stores a hash of the password, never
  the plaintext. Saving a loaded user writes its token list. Validation is the model's
  own: a document that fails it is not sent.\<close>

definition User_save :: "deps \<Rightarrow> user_doc \<Rightarrow> db \<Rightarrow> db \<times> (store_error + user_doc)" where
  "User_save d u db =
     logged UserSave
       (case (doc_email u, doc_password u) of
          (Value e, Value p) \<Rightarrow>
            if doc_invalid u then (db, Inl ValidationError)
            else if doc_isNew u then
              if \<not> is_email d e \<or> length p < min_password d then (db, Inl ValidationError)
              else
                (let db1 = access UserSave db
                 in if \<not> online db1 then (db1, Inl StoreUnavailable)
                    else if find (\<lambda>x. email x = e) (users db1) \<noteq> None
                    then (db1, Inl DuplicateEmail)
                    else if find (has_id (doc_id u)) (users db1) \<noteq> None
                    then (db1, Inl DuplicateKey)
                    else
                      (let h = bcrypt_hash d p;
                           x = \<lparr>user_id = doc_id u, email = e, password = h,
                                tokens = doc_tokens u\<rparr>
                       in (db1\<lparr>users := users db1 @ [x]\<rparr>,
                           Inr (u\<lparr>doc_password := Value h, doc_isNew := False\<rparr>))))
            else
              (let db1 = access UserSave db
               in if \<not> online db1 then (db1, Inl StoreUnavailable)
                  else
                    (db1\<lparr>users := update_first (has_id (doc_id u))
                                     (\<lambda>x. x\<lparr>tokens := doc_tokens u\<rparr>) (users db1)\<rparr>,
                     Inr u))
        | _ \<Rightarrow> (db, Inl ValidationError))"

text \<open>Modelled from the spec: \<^verbatim>\<open>user.generateAuthToken()\<close> of the missing
  \<^verbatim>\<open>models/user.js\<close>: issues a token that encodes the user id and the access scope
  \<^verbatim>\<open>auth\<close>, appends it to the user's token list, saves, and resolves to the token. The
  user document changes with it, so it is returned too.\<close>

definition generateAuthToken :: "deps \<Rightarrow> user_doc \<Rightarrow> db \<Rightarrow> db \<times> (store_error + string \<times> user_doc)" where
  "generateAuthToken d u db =
     (let token = jwt_sign d (doc_id u) ''auth'';
          u1 = u\<lparr>doc_tokens := doc_tokens u @ [(''auth'', token)]\<rparr>
      in case User_save d u1 db of
           (db1, Inr u2) \<Rightarrow> (db1, Inr (token, u2))
         | (db1, Inl e) \<Rightarrow> (db1, Inl e))"

text \<open>Case normalisation, of the letters A to Z.\<close>

definition lower :: "string \<Rightarrow> string" where
  "lower s =
     map (\<lambda>c. case map_of (zip ''ABCDEFGHIJKLMNOPQRSTUVWXYZ'' ''abcdefghijklmnopqrstuvwxyz'') c of
               Some l \<Rightarrow> l
             | None \<Rightarrow> c) s"

text \<open>Modelled from the spec: \<^verbatim>\<open>User.findByCredentials(email, password)\<close> of the missing
  \<^verbatim>\<open>models/user.js\<close>: looks the user up by email, case-normalised, and fails with
  InvalidCredentials if there is none or the password does not match the stored hash.\<close>

definition User_findByCredentials ::
  "deps \<Rightarrow> json option \<Rightarrow> json option \<Rightarrow> db \<Rightarrow> db \<times> (store_error + user_doc)" where
  "User_findByCredentials d e p db =
     logged UserFindByCredentials
       (case (cast_string e, cast_string p) of
          (Value e1, Value p1) \<Rightarrow>
            (let db1 = access UserFindByCredentials db
             in if \<not> online db1 then (db1, Inl StoreUnavailable)
                else
                  (case find (\<lambda>x. lower (email x) = lower e1) (users db1) of
                     None \<Rightarrow> (db1, Inl InvalidCredentials)
                   | Some x \<Rightarrow>
                       if bcrypt_compare d p1 (password x) then (db1, Inr (load_user x))
                       else (db1, Inl InvalidCredentials)))
        | _ \<Rightarrow> (db, Inl InvalidCredentials))"

definition owns_token :: "objectid \<Rightarrow> string \<Rightarrow> user \<Rightarrow> bool" where
  "owns_token oid t u = (user_id u = oid \<and> (''auth'', t) \<in> set (tokens u))"

text \<open>Modelled from the spec: \<^verbatim>\<open>User.findByToken(token)\<close> of the missing
  \<^verbatim>\<open>models/user.js\<close>: fails with Unauthenticated if the token is missing or does not
  verify, or is in no user's token list; the id it decodes to is checked against the
  owner of the stored entry.\<close>

definition User_findByToken :: "deps \<Rightarrow> string option \<Rightarrow> db \<Rightarrow> db \<times> (store_error + user_doc)" where
  "User_findByToken d tok db =
     logged UserFindByToken
       (case tok of
          None \<Rightarrow> (db, Inl Unauthenticated)
        | Some t \<Rightarrow>
            (case jwt_verify d t of
               None \<Rightarrow> (db, Inl Unauthenticated)
             | Some oid \<Rightarrow>
                 (let db1 = access UserFindByToken db
                  in if \<not> online db1 then (db1, Inl StoreUnavailable)
                     else
                       (case find (owns_token oid t) (users db1) of
                          None \<Rightarrow> (db1, Inl Unauthenticated)
                        | Some x \<Rightarrow> (db1, Inr (load_user x))))))"

section \<open>The todo routes\<close>

text \<open>\<^verbatim>\<open>app.post('/todos')\<close>. The \<^verbatim>\<open>.catch\<close> after the two callbacks names a variable
  \<^verbatim>\<open>err\<close> that is not in its scope: it sets the status and sends nothing. The second
  function handed to \<^verbatim>\<open>app.post\<close> (and to \<^verbatim>\<open>app.delete\<close>) is a further handler, which is
  not reached: the first never calls \<^verbatim>\<open>next\<close>.\<close>

definition post_todos :: "deps \<Rightarrow> jsobj \<Rightarrow> db \<Rightarrow> res \<Rightarrow> db \<times> res" where
  "post_todos d reqbody db r =
     (case Todo_save d (reqbody ''text'') db of
        (db1, Inr t) \<Rightarrow>
          (db1, (case res_send (Some (todo_json t)) (res_status 200 r) of
                   Returned r1 \<Rightarrow> r1
                 | Thrown r1 \<Rightarrow> res_status 400 r1))
      | (db1, Inl err) \<Rightarrow>
          (db1, (case res_send (Some (error_json err)) (res_status 400 r) of
                   Returned r1 \<Rightarrow> r1
                 | Thrown r1 \<Rightarrow> res_status 400 r1)))"

text \<open>\<^verbatim>\<open>app.get('/todos')\<close>.\<close>

definition get_todos :: "db \<Rightarrow> res \<Rightarrow> db \<times> res" where
  "get_todos db r =
     (case Todo_find db of
        (db1, Inr ts) \<Rightarrow>
          (db1, the_res (res_send (Some (JObj [(''todos'', JArr (map todo_json ts))])) r))
      | (db1, Inl err) \<Rightarrow>
          (db1, the_res (res_send (Some (error_json err)) (res_status 400 r))))"

text \<open>\<^verbatim>\<open>app.get('/todos/:id')\<close>. The \<^verbatim>\<open>then\<close> callback does not return after the 404: it
  goes on to the second \<^verbatim>\<open>send\<close>, which throws, and the \<^verbatim>\<open>.catch\<close> runs.\<close>

definition get_todos_id_then :: "todo option \<Rightarrow> res \<Rightarrow> completion" where
  "get_todos_id_then t r =
     (case (if t = None then res_send None (res_status 404 r) else Returned r) of
        Thrown r1 \<Rightarrow> Thrown r1
      | Returned r1 \<Rightarrow> res_send (Some (JObj [(''todo'', todo_opt_json t)])) (res_status 200 r1))"

definition get_todos_id :: "string \<Rightarrow> db \<Rightarrow> res \<Rightarrow> db \<times> res" where
  "get_todos_id ident db r =
     (if \<not> isValid ident
      then (db, the_res (res_send (Some (JObj [(''error'', JStr ''Todo id is not valid.'')]))
                           (res_status 400 r)))
      else
        (case Todo_findById ident db of
           (db1, Inr t) \<Rightarrow>
             (case get_todos_id_then t r of
                Returned r1 \<Rightarrow> (db1, r1)
              | Thrown r1 \<Rightarrow> (db1, the_res (res_send None (res_status 404 r1))))
         | (db1, Inl e) \<Rightarrow> (db1, the_res (res_send None (res_status 404 r)))))"

text \<open>\<^verbatim>\<open>app.delete('/todos/:id')\<close>.\<close>

definition delete_todos_id_then :: "todo option \<Rightarrow> res \<Rightarrow> completion" where
  "delete_todos_id_then t r =
     (if t = None then res_send None (res_status 404 r)
      else res_send (Some (JObj [(''todo'', todo_opt_json t)])) (res_status 200 r))"

definition delete_todos_id :: "string \<Rightarrow> db \<Rightarrow> res \<Rightarrow> db \<times> res" where
  "delete_todos_id ident db r =
     (if \<not> isValid ident
      then (db, the_res (res_send None (res_status 400 r)))
      else
        (case Todo_findByIdAndRemove ident db of
           (db1, Inr t) \<Rightarrow>
             (case delete_todos_id_then t r of
                Returned r1 \<Rightarrow> (db1, r1)
              | Thrown r1 \<Rightarrow> (db1, the_res (res_send None (res_status 404 r1))))
         | (db1, Inl e) \<Rightarrow> (db1, the_res (res_send None (res_status 404 r)))))"

text \<open>\<^verbatim>\<open>app.patch('/todos/:id')\<close>. The handler does not return after the 400 of a bad
  id, and its \<^verbatim>\<open>then\<close> callback does not return after the 404.\<close>

definition patch_body :: "deps \<Rightarrow> jsobj \<Rightarrow> jsobj" where
  "patch_body d reqbody =
     (let b = pick reqbody [''text'', ''completed'']
      in if b ''completed'' = Some (JBool True)
         then b(''completedAt'' \<mapsto> JNum (clock d))
         else b(''completed'' \<mapsto> JBool False, ''completedAt'' \<mapsto> JNull))"

definition patch_todos_id_then :: "todo option \<Rightarrow> res \<Rightarrow> completion" where
  "patch_todos_id_then t r =
     (case (if t = None then res_send None (res_status 404 r) else Returned r) of
        Thrown r1 \<Rightarrow> Thrown r1
      | Returned r1 \<Rightarrow> res_send (Some (JObj [(''todo'', todo_opt_json t)])) (res_status 200 r1))"

definition patch_todos_id :: "deps \<Rightarrow> string \<Rightarrow> jsobj \<Rightarrow> db \<Rightarrow> res \<Rightarrow> db \<times> res" where
  "patch_todos_id d ident reqbody db r =
     (let r0 = (if \<not> isValid ident then the_res (res_send None (res_status 400 r)) else r)
      in case Todo_findByIdAndUpdate ident (patch_body d reqbody) db of
           (db1, Inr t) \<Rightarrow>
             (case patch_todos_id_then t r0 of
                Returned r1 \<Rightarrow> (db1, r1)
              | Thrown r1 \<Rightarrow> (db1, the_res (res_send None (res_status 400 r1))))
         | (db1, Inl e) \<Rightarrow> (db1, the_res (res_send None (res_status 400 r0))))"

section \<open>The user routes\<close>

text \<open>Modelled from the spec: the middleware of the missing
  \<^verbatim>\<open>middlewares/authenticate.js\<close>. It takes the token from the \<^verbatim>\<open>x-auth\<close> request
  header and calls \<^verbatim>\<open>findByToken\<close>; on success it hands the user to the wrapped handler,
  on any failure it answers 401 with an empty body.\<close>

definition authenticate ::
  "deps \<Rightarrow> string option \<Rightarrow> db \<Rightarrow> res \<Rightarrow> (user_doc \<Rightarrow> db \<Rightarrow> res \<Rightarrow> db \<times> res) \<Rightarrow> db \<times> res" where
  "authenticate d tok db r nxt =
     (case User_findByToken d tok db of
        (db1, Inr u) \<Rightarrow> nxt u db1 r
      | (db1, Inl e) \<Rightarrow> (db1, the_res (res_send None (res_status 401 r))))"

text \<open>\<^verbatim>\<open>app.post('/users')\<close>. What the \<^verbatim>\<open>.catch\<close> sends for an exception of the \<^verbatim>\<open>then\<close>
  callback is an Error object, which serialises to an empty object.\<close>

definition post_users_then :: "string \<Rightarrow> user_doc \<Rightarrow> res \<Rightarrow> completion" where
  "post_users_then token u r =
     (if token = [] then res_send None (res_status 400 r)
      else
        (case res_header ''x-auth'' token r of
           Thrown r1 \<Rightarrow> Thrown r1
         | Returned r1 \<Rightarrow> res_send (Some (user_json u)) (res_status 200 r1)))"

definition post_users :: "deps \<Rightarrow> jsobj \<Rightarrow> db \<Rightarrow> res \<Rightarrow> db \<times> res" where
  "post_users d reqbody db r =
     (let b = pick reqbody [''email'', ''password''];
          u = User_new d b
      in case generateAuthToken d u db of
           (db1, Inr (token, u1)) \<Rightarrow>
             (case post_users_then token u1 r of
                Returned r1 \<Rightarrow> (db1, r1)
              | Thrown r1 \<Rightarrow> (db1, the_res (res_send (Some (JObj [])) (res_status 400 r1))))
         | (db1, Inl e) \<Rightarrow> (db1, the_res (res_send (Some (error_json e)) (res_status 400 r))))"

text \<open>\<^verbatim>\<open>app.get('/users/me')\<close>: the handler behind the middleware.\<close>

definition users_me :: "user_doc \<Rightarrow> db \<Rightarrow> res \<Rightarrow> db \<times> res" where
  "users_me u db r = (db, the_res (res_send (Some (user_json u)) (res_status 200 r)))"

definition get_users_me :: "deps \<Rightarrow> string option \<Rightarrow> db \<Rightarrow> res \<Rightarrow> db \<times> res" where
  "get_users_me d tok db r = authenticate d tok db r users_me"

text \<open>\<^verbatim>\<open>app.post('/users/login')\<close>.\<close>

definition post_users_login_then :: "string \<Rightarrow> user_doc \<Rightarrow> res \<Rightarrow> completion" where
  "post_users_login_then token u r =
     (case res_header ''x-auth'' token r of
        Thrown r1 \<Rightarrow> Thrown r1
      | Returned r1 \<Rightarrow> res_send (Some (user_json u)) r1)"

definition post_users_login :: "deps \<Rightarrow> jsobj \<Rightarrow> db \<Rightarrow> res \<Rightarrow> db \<times> res" where
  "post_users_login d reqbody db r =
     (let b = pick reqbody [''email'', ''password'']
      in case User_findByCredentials d (b ''email'') (b ''password'') db of
           (db1, Inr u) \<Rightarrow>
             (case generateAuthToken d u db1 of
                (db2, Inr (token, u1)) \<Rightarrow>
                  (case post_users_login_then token u1 r of
                     Returned r1 \<Rightarrow> (db2, r1)
                   | Thrown r1 \<Rightarrow> (db2, the_res (res_send None (res_status 400 r1))))
              | (db2, Inl e) \<Rightarrow> (db2, the_res (res_send None (res_status 400 r))))
         | (db1, Inl e) \<Rightarrow> (db1, the_res (res_send None (res_status 400 r))))"

section \<open>The service\<close>

datatype request =
    PostTodos jsobj
  | GetTodos
  | GetTodosId string
  | DeleteTodosId string
  | PatchTodosId string jsobj
  | PostUsers jsobj
  | GetUsersMe "string option"
  | PostUsersLogin jsobj

text \<open>Each request gets a response object of its own.\<close>

fun handle :: "deps \<Rightarrow> request \<Rightarrow> db \<Rightarrow> db \<times> res" where
  "handle d (PostTodos b) db = post_todos d b db fresh_res"
| "handle d GetTodos db = get_todos db fresh_res"
| "handle d (GetTodosId i) db = get_todos_id i db fresh_res"
| "handle d (DeleteTodosId i) db = delete_todos_id i db fresh_res"
| "handle d (PatchTodosId i b) db = patch_todos_id d i b db fresh_res"
| "handle d (PostUsers b) db = post_users d b db fresh_res"
| "handle d (GetUsersMe t) db = get_users_me d t db fresh_res"
| "handle d (PostUsersLogin b) db = post_users_login d b db fresh_res"

text \<open>The status a route answers with when the store rejects its operation: what its
  rejection callback sends (\<^verbatim>\<open>.catch\<close>, or the second argument of \<^verbatim>\<open>then\<close>), and the
  401 of the middleware.\<close>

fun failure_status :: "request \<Rightarrow> nat" where
  "failure_status (GetTodosId i) = 404"
| "failure_status (DeleteTodosId i) = 404"
| "failure_status (GetUsersMe t) = 401"
| "failure_status _ = 400"

text \<open>Whether one of the operations a request issued was rejected.\<close>

definition rejected :: "deps \<Rightarrow> request \<Rightarrow> db \<Rightarrow> bool" where
  "rejected d req db =
     list_ex snd (drop (length (calls db)) (calls (fst (handle d req db))))"

text \<open>A route's answer: one of the four statuses the handlers send, and the status \<open>n\<close>
  whenever one of the operations the route issued was rejected.\<close>

definition answers :: "db \<Rightarrow> nat \<Rightarrow> db \<times> res \<Rightarrow> bool" where
  "answers db n out \<longleftrightarrow>
     wire_status (snd out) \<in> Some ` {200, 400, 401, 404}
     \<and> (list_ex snd (drop (length (calls db)) (calls (fst out))) \<longrightarrow>
          wire_status (snd out) = Some n)"


section \<open>Example data\<close>

text \<open>A store like the one the tests seed: two todos and a user holding one token, with
  stand-ins for the hashing and signing primitives.\<close>

definition example_deps :: deps where
  "example_deps =
     \<lparr>clock = 1500000000000, gen_id = 7, is_email = (\<lambda>s. CHR ''@'' \<in> set s),
      min_password = 6, bcrypt_hash = (\<lambda>p. ''#'' @ p), bcrypt_compare = (\<lambda>p h. h = ''#'' @ p),
      jwt_sign = (\<lambda>i a. toHexString i @ ''.'' @ a),
      jwt_verify = (\<lambda>t. castObjectId (take 24 t))\<rparr>"

definition example_db :: db where
  "example_db =
     \<lparr>todos = [\<lparr>todo_id = 1, todo_text = ''First test todo'', completed = False,
                completedAt = None, todo_v = 0\<rparr>,
               \<lparr>todo_id = 2, todo_text = ''Second test todo'', completed = True,
                completedAt = Some 333, todo_v = 0\<rparr>],
      users = [\<lparr>user_id = 5, email = ''andrew@example.com'', password = ''#userOnePass'',
                tokens = [(''auth'', ''000000000000000000000005.auth'')]\<rparr>],
      online = True, calls = [], accesses = []\<rparr>"

section \<open>Properties\<close>

subsection \<open>Identifiers\<close>








text \<open>The strings \<^verbatim>\<open>ObjectId.isValid\<close> accepts are those the query can cast.\<close>

lemma isValid_cast: "isValid s \<longleftrightarrow> castObjectId s \<noteq> None"
  by (simp add: isValid_def castObjectId_def)

subsection \<open>Looking documents up\<close>


lemma find_by_id_None: "find (by_id oid) ts = None \<longleftrightarrow> oid \<notin> todo_id ` set ts"
  by (induction ts) (auto simp: by_id_def)


lemmas res_defs = res_send_def res_status_def res_header_def wire_status_def
  wire_body_def wire_header_def

lemmas store_defs = logged_def access_def Let_def


subsection \<open>Reading and deleting a todo\<close>

text \<open>What \<^verbatim>\<open>GET /todos/:id\<close> does for a well-formed id that no document has: the first
  \<^verbatim>\<open>send\<close> puts the 404 on the wire, the second throws, and the \<^verbatim>\<open>.catch\<close> changes
  nothing. An unreachable store ends in the same response.\<close>

lemma get_todos_id_absent:
  assumes "castObjectId ident = Some oid"
    and "find (by_id oid) (todos db) = None"
  shows "get_todos_id ident db fresh_res =
     (db\<lparr>calls := calls db @ [(TodoFindById ident, \<not> online db)],
         accesses := accesses db @ [TodoFindById ident]\<rparr>,
      \<lparr>statusCode = 404, hdrs = [], wire = Some \<lparr>status = 404, headers = [], body = None\<rparr>\<rparr>)"
proof -
  have v: "isValid ident"
    using assms(1) by (simp add: isValid_cast)
  show ?thesis
    by (simp add: get_todos_id_def v Todo_findById_def store_defs assms
        get_todos_id_then_def res_defs fresh_res_def)
qed


lemma castObjectId_3: "castObjectId ''000000000000000000000003'' = Some 3"
  by (simp add: castObjectId_def is_hex_def hexval_def fromHex_def)

text \<open>C1. For every well-formed todo id that matches no stored document,
  \<^verbatim>\<open>GET /todos/:id\<close> answers with status 404 and an empty body (no todo data), and leaves
  the collection as it was.\<close>

theorem get_todos_id_not_found:
  assumes "isValid ident"
    and "\<forall>t \<in> set (todos db). castObjectId ident \<noteq> Some (todo_id t)"
  shows "wire_status (snd (get_todos_id ident db fresh_res)) = Some 404
       \<and> wire_body (snd (get_todos_id ident db fresh_res)) = None
       \<and> todos (fst (get_todos_id ident db fresh_res)) = todos db"
proof -
  obtain oid where c: "castObjectId ident = Some oid"
    using assms(1) by (auto simp: isValid_cast)
  have "oid \<notin> todo_id ` set (todos db)"
    using assms(2) c by auto
  then have "find (by_id oid) (todos db) = None"
    by (simp add: find_by_id_None)
  then show ?thesis
    by (simp add: get_todos_id_absent [OF c] wire_status_def wire_body_def)
qed

theorem get_todos_id_not_found_witness:
  "isValid ''000000000000000000000003''
   \<and> wire_status (snd (get_todos_id ''000000000000000000000003'' example_db fresh_res)) = Some 404
   \<and> wire_body (snd (get_todos_id ''000000000000000000000003'' example_db fresh_res)) = None
   \<and> todos (fst (get_todos_id ''000000000000000000000003'' example_db fresh_res)) = todos example_db"
  using get_todos_id_not_found [of "''000000000000000000000003''" example_db]
  by (simp add: isValid_cast castObjectId_3 example_db_def)


lemma upper_case_spelling:
  "castObjectId ''00000000000000000000000A'' = Some 10
   \<and> toHexString 10 = ''00000000000000000000000a''"
proof
  show "castObjectId ''00000000000000000000000A'' = Some 10"
    by (simp add: castObjectId_def is_hex_def hexval_def fromHex_def)
  show "toHexString 10 = ''00000000000000000000000a''"
    by code_simp
qed



subsection \<open>Updating a todo\<close>

text \<open>The handlers of \<^verbatim>\<open>GET\<close> and \<^verbatim>\<open>DELETE\<close> return at a malformed id: the model is not
  even called.\<close>

lemma get_todos_id_invalid:
  "\<not> isValid ident \<Longrightarrow> fst (get_todos_id ident db fresh_res) = db
     \<and> wire_status (snd (get_todos_id ident db fresh_res)) = Some 400"
  by (simp add: get_todos_id_def res_defs fresh_res_def)

lemma delete_todos_id_invalid:
  "\<not> isValid ident \<Longrightarrow> fst (delete_todos_id ident db fresh_res) = db
     \<and> wire_status (snd (delete_todos_id ident db fresh_res)) = Some 400"
  by (simp add: delete_todos_id_def res_defs fresh_res_def)

text \<open>C2. For every \<^verbatim>\<open>PATCH /todos/:id\<close> whose id is not well-formed, the answer is 400
  with an empty body, nothing is sent to the store and the stored collections are as
  they were. The handler does not return after the 400: it goes on to call the update
  on the model, but the model refuses the call when it casts the id, before anything is
  sent, so the log of calls has the refused call and the log of accesses has nothing
  new.\<close>

theorem patch_todos_id_invalid:
  assumes "\<not> isValid ident"
  shows "wire_status (snd (patch_todos_id d ident reqbody db fresh_res)) = Some 400
       \<and> wire_body (snd (patch_todos_id d ident reqbody db fresh_res)) = None
       \<and> accesses (fst (patch_todos_id d ident reqbody db fresh_res)) = accesses db
       \<and> todos (fst (patch_todos_id d ident reqbody db fresh_res)) = todos db
       \<and> users (fst (patch_todos_id d ident reqbody db fresh_res)) = users db
       \<and> calls (fst (patch_todos_id d ident reqbody db fresh_res))
           = calls db @ [(TodoFindByIdAndUpdate ident, True)]"
proof -
  have c: "castObjectId ident = None"
    using assms by (simp add: isValid_cast)
  show ?thesis
    by (simp add: patch_todos_id_def assms Todo_findByIdAndUpdate_def logged_def c
        res_defs fresh_res_def)
qed

theorem patch_todos_id_invalid_witness:
  "\<not> isValid ''123''
   \<and> wire_status (snd (patch_todos_id example_deps ''123'' [''text'' \<mapsto> JStr ''X'']
        example_db fresh_res)) = Some 400
   \<and> accesses (fst (patch_todos_id example_deps ''123'' [''text'' \<mapsto> JStr ''X'']
        example_db fresh_res)) = []
   \<and> todos (fst (patch_todos_id example_deps ''123'' [''text'' \<mapsto> JStr ''X'']
        example_db fresh_res)) = todos example_db"
  using patch_todos_id_invalid [of "''123''" example_deps "[''text'' \<mapsto> JStr ''X'']" example_db]
  by (simp add: isValid_def example_db_def)

lemma find_by_id_mem:
  "t \<in> set ts \<Longrightarrow> \<exists>t0. find (by_id (todo_id t)) ts = Some t0 \<and> todo_id t0 = todo_id t"
  by (induction ts) (auto simp: by_id_def)

lemma find_update_first:
  "find P xs = Some x \<Longrightarrow> P (f x) \<Longrightarrow> find P (update_first P f xs) = Some (f x)"
  by (induction xs) (auto split: if_splits)

text \<open>What the handler hands to \<^verbatim>\<open>$set\<close>, key by key: thanks to \<^verbatim>\<open>_.pick\<close>, nothing but
  \<^verbatim>\<open>text\<close>, \<^verbatim>\<open>completed\<close> and \<^verbatim>\<open>completedAt\<close>.\<close>

lemma pick_apply: "pick obj ks k = (if k \<in> set ks then obj k else None)"
  by (simp add: pick_def restrict_map_def)

lemma patch_body_text: "patch_body d b ''text'' = b ''text''"
  by (simp add: patch_body_def Let_def pick_apply)

lemma patch_body_completed:
  "patch_body d b ''completed'' = Some (JBool (b ''completed'' = Some (JBool True)))"
  by (simp add: patch_body_def Let_def pick_apply)

lemma patch_body_completedAt:
  "patch_body d b ''completedAt''
     = Some (if b ''completed'' = Some (JBool True) then JNum (clock d) else JNull)"
  by (simp add: patch_body_def Let_def pick_apply)

lemma patch_body_id: "patch_body d b ''_id'' = None"
  by (simp add: patch_body_def Let_def pick_apply)

lemma patch_body_v: "patch_body d b ''__v'' = None"
  by (simp add: patch_body_def Let_def pick_apply)

lemma cast_set_patch_body:
  "cast_set (patch_body d b) =
     (if cast_text (b ''text'') = CastFail then None
      else Some \<lparr>set_id = Absent, set_text = cast_text (b ''text''),
                 set_completed = Value (b ''completed'' = Some (JBool True)),
                 set_completedAt = Value (if b ''completed'' = Some (JBool True)
                                          then Some (clock d) else None),
                 set_v = Absent\<rparr>)"
  by (simp add: cast_set_def Let_def patch_body_text patch_body_completed patch_body_completedAt
      patch_body_id patch_body_v cast_completed_def cast_completedAt_def cast_id_def cast_v_def)

text \<open>The update itself takes every path of the schema it is given: without the
  \<^verbatim>\<open>_.pick\<close> of the handler a version key in the body would be stored, and another
  \<^verbatim>\<open>_id\<close> would have the store reject the update.\<close>

lemma castObjectId_1: "castObjectId ''000000000000000000000001'' = Some 1"
  by (simp add: castObjectId_def is_hex_def hexval_def fromHex_def)

lemma castObjectId_2: "castObjectId ''000000000000000000000002'' = Some 2"
  by (simp add: castObjectId_def is_hex_def hexval_def fromHex_def)

lemma set_takes_every_path:
  "map todo_v (todos (fst (Todo_findByIdAndUpdate ''000000000000000000000001''
      [''__v'' \<mapsto> JNum 7] example_db))) = [7, 0]
   \<and> snd (Todo_findByIdAndUpdate ''000000000000000000000001''
      [''_id'' \<mapsto> JStr ''000000000000000000000002''] example_db) = Inl ImmutableField"
  by (simp add: Todo_findByIdAndUpdate_def castObjectId_1 castObjectId_2 cast_set_def cast_id_def
      cast_v_def cast_text_def cast_completed_def cast_completedAt_def apply_set_def store_defs
      by_id_def example_db_def)

text \<open>The two outcomes of a \<^verbatim>\<open>PATCH\<close> on a stored todo: the update applied, or refused.\<close>

lemma patch_todos_id_applied:
  assumes "online db"
    and "find (by_id oid) (todos db) = Some t0"
    and "castObjectId ident = Some oid"
    and "cast_text (reqbody ''text'') \<noteq> CastFail"
  shows "patch_todos_id d ident reqbody db fresh_res =
     (db\<lparr>todos := update_first (by_id oid)
              (\<lambda>x. t0\<lparr>todo_text := (case cast_text (reqbody ''text'') of
                                       Value s \<Rightarrow> s | _ \<Rightarrow> todo_text t0),
                       completed := (reqbody ''completed'' = Some (JBool True)),
                       completedAt := (if reqbody ''completed'' = Some (JBool True)
                                       then Some (clock d) else None)\<rparr>) (todos db),
         calls := calls db @ [(TodoFindByIdAndUpdate ident, False)],
         accesses := accesses db @ [TodoFindByIdAndUpdate ident]\<rparr>,
      \<lparr>statusCode = 200, hdrs = [],
       wire = Some \<lparr>status = 200, headers = [],
                    body = Some (JObj [(''todo'', todo_json
                      (t0\<lparr>todo_text := (case cast_text (reqbody ''text'') of
                                          Value s \<Rightarrow> s | _ \<Rightarrow> todo_text t0),
                          completed := (reqbody ''completed'' = Some (JBool True)),
                          completedAt := (if reqbody ''completed'' = Some (JBool True)
                                          then Some (clock d) else None)\<rparr>))])\<rparr>\<rparr>)"
proof -
  have v: "isValid ident"
    using assms(3) by (simp add: isValid_cast)
  show ?thesis
    by (simp add: patch_todos_id_def v Todo_findByIdAndUpdate_def store_defs assms
        cast_set_patch_body apply_set_def patch_todos_id_then_def res_defs todo_opt_json_def
        fresh_res_def)
qed

lemma patch_todos_id_refused:
  assumes "castObjectId ident = Some oid"
    and "\<not> online db \<or> cast_text (reqbody ''text'') = CastFail"
  shows "wire_status (snd (patch_todos_id d ident reqbody db fresh_res)) = Some 400
       \<and> todos (fst (patch_todos_id d ident reqbody db fresh_res)) = todos db"
proof -
  have v: "isValid ident"
    using assms(1) by (simp add: isValid_cast)
  show ?thesis
    using assms(2)
    by (auto simp: patch_todos_id_def v Todo_findByIdAndUpdate_def store_defs assms(1)
        cast_set_patch_body res_defs fresh_res_def)
qed

text \<open>C4, as stated, fails: a \<^verbatim>\<open>text\<close> that is an object does not cast to the string of
  the schema, the update is refused with a 400, and the stored todo keeps its
  \<^verbatim>\<open>completed\<close> and \<^verbatim>\<open>completedAt\<close> although the body's \<^verbatim>\<open>completed\<close> is false.\<close>

theorem patch_todos_id_text_object_counterexample:
  "wire_status (snd (patch_todos_id example_deps ''000000000000000000000002''
      [''text'' \<mapsto> JObj [], ''completed'' \<mapsto> JBool False] example_db fresh_res)) = Some 400
   \<and> map_option completed (find (by_id 2) (todos (fst (patch_todos_id example_deps
        ''000000000000000000000002'' [''text'' \<mapsto> JObj [], ''completed'' \<mapsto> JBool False]
        example_db fresh_res)))) = Some True
   \<and> map_option completedAt (find (by_id 2) (todos (fst (patch_todos_id example_deps
        ''000000000000000000000002'' [''text'' \<mapsto> JObj [], ''completed'' \<mapsto> JBool False]
        example_db fresh_res)))) = Some (Some 333)"
proof -
  have "wire_status (snd (patch_todos_id example_deps ''000000000000000000000002''
      [''text'' \<mapsto> JObj [], ''completed'' \<mapsto> JBool False] example_db fresh_res)) = Some 400
    \<and> todos (fst (patch_todos_id example_deps ''000000000000000000000002''
      [''text'' \<mapsto> JObj [], ''completed'' \<mapsto> JBool False] example_db fresh_res))
      = todos example_db"
    by (rule patch_todos_id_refused [OF castObjectId_2]) (simp add: cast_text_def)
  then show ?thesis
    by (simp add: example_db_def by_id_def)
qed

text \<open>C4, amended. For every \<^verbatim>\<open>PATCH /todos/:id\<close> on an existing todo that is answered
  200, the server derives \<^verbatim>\<open>completedAt\<close> itself: when the body's \<^verbatim>\<open>completed\<close> is the
  boolean true, the stored todo is completed with \<^verbatim>\<open>completedAt\<close> the current time; in
  every other case (false, absent or not a boolean) its \<^verbatim>\<open>completed\<close> is false and its
  \<^verbatim>\<open>completedAt\<close> null. The request is answered 200 whenever the store answers and
  \<^verbatim>\<open>text\<close> is absent or a string.\<close>

theorem patch_todos_id_completedAt:
  assumes "t \<in> set (todos db)"
    and "castObjectId ident = Some (todo_id t)"
  shows "(wire_status (snd (patch_todos_id d ident reqbody db fresh_res)) = Some 200 \<longrightarrow>
          map_option completed
            (find (by_id (todo_id t)) (todos (fst (patch_todos_id d ident reqbody db fresh_res))))
           = Some (reqbody ''completed'' = Some (JBool True))
        \<and> map_option completedAt
            (find (by_id (todo_id t)) (todos (fst (patch_todos_id d ident reqbody db fresh_res))))
           = Some (if reqbody ''completed'' = Some (JBool True) then Some (clock d) else None))
       \<and> (online db \<and> cast_text (reqbody ''text'') \<noteq> CastFail \<longrightarrow>
          wire_status (snd (patch_todos_id d ident reqbody db fresh_res)) = Some 200)"
proof -
  obtain t0 where f: "find (by_id (todo_id t)) (todos db) = Some t0"
    using find_by_id_mem [OF assms(1)] by blast
  then have p: "by_id (todo_id t) t0"
    by (auto dest: find_Some_iff [THEN iffD1])
  define g :: "todo" where "g = t0\<lparr>todo_text := (case cast_text (reqbody ''text'') of
                                       Value s \<Rightarrow> s | _ \<Rightarrow> todo_text t0),
                       completed := (reqbody ''completed'' = Some (JBool True)),
                       completedAt := (if reqbody ''completed'' = Some (JBool True)
                                       then Some (clock d) else None)\<rparr>"
  have pg: "by_id (todo_id t) g"
    using p by (simp add: by_id_def g_def)
  have after: "find (by_id (todo_id t)) (update_first (by_id (todo_id t)) (\<lambda>x. g) (todos db))
      = Some g"
    using f pg by (rule find_update_first)
  have applied: "wire_status (snd (patch_todos_id d ident reqbody db fresh_res)) = Some 200
      \<and> find (by_id (todo_id t)) (todos (fst (patch_todos_id d ident reqbody db fresh_res)))
          = Some g"
    if "online db" and "cast_text (reqbody ''text'') \<noteq> CastFail"
    using after
    by (simp add: patch_todos_id_applied [where reqbody = reqbody and d = d,
          OF that(1) f assms(2) that(2)] wire_status_def g_def)
  have refused: "wire_status (snd (patch_todos_id d ident reqbody db fresh_res)) = Some 400"
    if "\<not> online db \<or> cast_text (reqbody ''text'') = CastFail"
    using patch_todos_id_refused [where reqbody = reqbody and d = d, OF assms(2) that] by simp
  show ?thesis
  proof (cases "online db \<and> cast_text (reqbody ''text'') \<noteq> CastFail")
    case True
    then show ?thesis
      using applied by (simp add: g_def)
  next
    case False
    then show ?thesis
      using refused by auto
  qed
qed

theorem patch_todos_id_completedAt_witness:
  "wire_status (snd (patch_todos_id example_deps ''000000000000000000000001''
       [''completed'' \<mapsto> JBool True, ''text'' \<mapsto> JStr ''X''] example_db fresh_res)) = Some 200
   \<and> map_option completedAt (find (by_id 1) (todos (fst (patch_todos_id example_deps
       ''000000000000000000000001'' [''completed'' \<mapsto> JBool True, ''text'' \<mapsto> JStr ''X'']
       example_db fresh_res)))) = Some (Some 1500000000000)
   \<and> wire_status (snd (patch_todos_id example_deps ''000000000000000000000002''
       [''completed'' \<mapsto> JStr ''yes''] example_db fresh_res)) = Some 200
   \<and> map_option completed (find (by_id 2) (todos (fst (patch_todos_id example_deps
       ''000000000000000000000002'' [''completed'' \<mapsto> JStr ''yes''] example_db fresh_res))))
       = Some False
   \<and> map_option completedAt (find (by_id 2) (todos (fst (patch_todos_id example_deps
       ''000000000000000000000002'' [''completed'' \<mapsto> JStr ''yes''] example_db fresh_res))))
       = Some None"
proof -
  have m1: "hd (todos example_db) \<in> set (todos example_db)"
    and c1: "castObjectId ''000000000000000000000001'' = Some (todo_id (hd (todos example_db)))"
    and m2: "last (todos example_db) \<in> set (todos example_db)"
    and c2: "castObjectId ''000000000000000000000002'' = Some (todo_id (last (todos example_db)))"
    by (simp_all add: example_db_def castObjectId_1 castObjectId_2)
  have ok1: "online example_db
      \<and> cast_text ([''completed'' \<mapsto> JBool True, ''text'' \<mapsto> JStr ''X''] ''text'') \<noteq> CastFail"
    and ok2: "online example_db \<and> cast_text ([''completed'' \<mapsto> JStr ''yes''] ''text'') \<noteq> CastFail"
    by (simp_all add: example_db_def cast_text_def)
  note a = patch_todos_id_completedAt [OF m1 c1, of example_deps
      "[''completed'' \<mapsto> JBool True, ''text'' \<mapsto> JStr ''X'']"]
  note b = patch_todos_id_completedAt [OF m2 c2, of example_deps "[''completed'' \<mapsto> JStr ''yes'']"]
  have s1: "wire_status (snd (patch_todos_id example_deps ''000000000000000000000001''
       [''completed'' \<mapsto> JBool True, ''text'' \<mapsto> JStr ''X''] example_db fresh_res)) = Some 200"
    using a [THEN conjunct2, rule_format, OF ok1] .
  have s2: "wire_status (snd (patch_todos_id example_deps ''000000000000000000000002''
       [''completed'' \<mapsto> JStr ''yes''] example_db fresh_res)) = Some 200"
    using b [THEN conjunct2, rule_format, OF ok2] .
  show ?thesis
    using a [THEN conjunct1, rule_format, OF s1] b [THEN conjunct1, rule_format, OF s2] s1 s2
    by (simp add: example_db_def example_deps_def)
qed

lemma pick_cong:
  "\<forall>k \<in> set ks. b1 k = b2 k \<Longrightarrow> pick b1 ks = pick b2 ks"
  by (rule ext) (simp add: pick_apply)

lemma map_update_first_cong:
  "(\<And>x. g (f1 x) = g (f2 x)) \<Longrightarrow> map g (update_first P f1 xs) = map g (update_first P f2 xs)"
  by (induction xs) simp_all

lemma update_first_absent: "find P xs = None \<Longrightarrow> update_first P f xs = xs"
  by (induction xs) (auto split: if_splits)

lemma todos_patch_todos_id:
  "todos (fst (patch_todos_id d ident b db r)) =
     (case castObjectId ident of
        None \<Rightarrow> todos db
      | Some oid \<Rightarrow>
          if cast_text (b ''text'') = CastFail \<or> \<not> online db then todos db
          else
            (case find (by_id oid) (todos db) of
               None \<Rightarrow> todos db
             | Some t \<Rightarrow>
                 update_first (by_id oid)
                   (\<lambda>x. t\<lparr>todo_text := (case cast_text (b ''text'') of
                                          Value s \<Rightarrow> s | _ \<Rightarrow> todo_text t),
                          completed := (b ''completed'' = Some (JBool True)),
                          completedAt := (if b ''completed'' = Some (JBool True)
                                          then Some (clock d) else None)\<rparr>) (todos db)))"
  by (simp add: patch_todos_id_def Todo_findByIdAndUpdate_def store_defs cast_set_patch_body
      apply_set_def split: option.split sum.split prod.split completion.split)

text \<open>C9. Of a \<^verbatim>\<open>PATCH /todos/:id\<close> body only \<^verbatim>\<open>text\<close> and \<^verbatim>\<open>completed\<close> count: two
  bodies that agree on them give the same stored todos apart from the server-derived
  \<^verbatim>\<open>completedAt\<close>, and at the same clock the same response and store altogether. A
  \<^verbatim>\<open>completedAt\<close>, an \<^verbatim>\<open>_id\<close>, a version key or any other field the caller adds changes
  nothing: the handler's \<^verbatim>\<open>_.pick\<close> keeps it from the update, which would take it.\<close>

theorem patch_todos_id_frame:
  assumes "b1 ''text'' = b2 ''text''"
    and "b1 ''completed'' = b2 ''completed''"
  shows "(clock d1 = clock d2 \<longrightarrow>
            patch_todos_id d1 ident b1 db r = patch_todos_id d2 ident b2 db r)
       \<and> map (\<lambda>t. t\<lparr>completedAt := None\<rparr>) (todos (fst (patch_todos_id d1 ident b1 db r)))
           = map (\<lambda>t. t\<lparr>completedAt := None\<rparr>) (todos (fst (patch_todos_id d2 ident b2 db r)))"
proof -
  have pk: "pick b1 [''text'', ''completed''] = pick b2 [''text'', ''completed'']"
    using assms by (intro pick_cong) simp
  have same: "clock d1 = clock d2 \<Longrightarrow> patch_body d1 b1 = patch_body d2 b2"
    by (simp add: patch_body_def pk Let_def)
  have full: "clock d1 = clock d2 \<longrightarrow>
      patch_todos_id d1 ident b1 db r = patch_todos_id d2 ident b2 db r"
    by (simp add: patch_todos_id_def same)
  have upd: "map (\<lambda>t. t\<lparr>completedAt := None\<rparr>) (update_first P
        (\<lambda>x. t\<lparr>todo_text := tx, completed := c, completedAt := a1\<rparr>) xs)
      = map (\<lambda>t. t\<lparr>completedAt := None\<rparr>) (update_first P
        (\<lambda>x. t\<lparr>todo_text := tx, completed := c, completedAt := a2\<rparr>) xs)"
    for P tx c a1 a2 and t :: todo and xs :: "todo list"
    by (rule map_update_first_cong) simp
  have part: "map (\<lambda>t. t\<lparr>completedAt := None\<rparr>) (todos (fst (patch_todos_id d1 ident b1 db r)))
      = map (\<lambda>t. t\<lparr>completedAt := None\<rparr>) (todos (fst (patch_todos_id d2 ident b2 db r)))"
    by (simp add: todos_patch_todos_id assms upd split: option.split)
  show ?thesis
    using full part by simp
qed

theorem patch_todos_id_frame_witness:
  "patch_todos_id example_deps ''000000000000000000000001''
      [''text'' \<mapsto> JStr ''X'', ''completed'' \<mapsto> JBool True, ''completedAt'' \<mapsto> JNum 42,
       ''__v'' \<mapsto> JNum 7, ''_id'' \<mapsto> JStr ''000000000000000000000002''] example_db fresh_res
   = patch_todos_id example_deps ''000000000000000000000001''
      [''text'' \<mapsto> JStr ''X'', ''completed'' \<mapsto> JBool True] example_db fresh_res"
  using patch_todos_id_frame [of
      "[''text'' \<mapsto> JStr ''X'', ''completed'' \<mapsto> JBool True, ''completedAt'' \<mapsto> JNum 42,
        ''__v'' \<mapsto> JNum 7, ''_id'' \<mapsto> JStr ''000000000000000000000002'']"
      "[''text'' \<mapsto> JStr ''X'', ''completed'' \<mapsto> JBool True]"
      example_deps example_deps "''000000000000000000000001''" example_db fresh_res]
  by simp

subsection \<open>Creating a todo\<close>

lemma trim_example: "trim ''  Walk the dog '' = ''Walk the dog''"
  by (simp add: trim_def is_space_def)

text \<open>C5, as stated, fails: the schema trims the text, so a non-empty text with a leading
  blank is not persisted as it was sent.\<close>

theorem post_todos_untrimmed_counterexample:
  "wire_status (snd (post_todos example_deps [''text'' \<mapsto> JStr '' a''] example_db fresh_res))
     = Some 200
   \<and> map todo_text (todos (fst (post_todos example_deps [''text'' \<mapsto> JStr '' a''] example_db
        fresh_res))) = [''First test todo'', ''Second test todo'', ''a'']
   \<and> todo_text (last (todos (fst (post_todos example_deps [''text'' \<mapsto> JStr '' a''] example_db
        fresh_res)))) \<noteq> '' a''"
  by (simp add: post_todos_def Todo_save_def store_defs cast_text_def trim_def is_space_def
      example_db_def example_deps_def by_id_def res_defs fresh_res_def)

text \<open>C5, amended. For every \<^verbatim>\<open>POST /todos\<close> whose text is omitted or is a string that is
  empty once trimmed (the empty string, or white space only), the answer is 400 and the
  stored collection is unchanged; for every string whose trimmed form is not empty, when
  the store answers and the generated id is new, the answer is 200 and the collection
  gains exactly the todo with the trimmed text, \<^verbatim>\<open>completed\<close> false and \<^verbatim>\<open>completedAt\<close>
  null, which is also the body of the response.\<close>

theorem post_todos_create:
  "((b ''text'' = None \<or> (\<exists>s. b ''text'' = Some (JStr s) \<and> trim s = [])) \<longrightarrow>
      wire_status (snd (post_todos d b db fresh_res)) = Some 400
      \<and> todos (fst (post_todos d b db fresh_res)) = todos db)
   \<and> (\<forall>s. b ''text'' = Some (JStr s) \<and> trim s \<noteq> [] \<and> online db
          \<and> gen_id d \<notin> todo_id ` set (todos db) \<longrightarrow>
      wire_status (snd (post_todos d b db fresh_res)) = Some 200
      \<and> todos (fst (post_todos d b db fresh_res))
          = todos db @ [\<lparr>todo_id = gen_id d, todo_text = trim s, completed = False,
                          completedAt = None, todo_v = 0\<rparr>]
      \<and> wire_body (snd (post_todos d b db fresh_res))
          = Some (todo_json \<lparr>todo_id = gen_id d, todo_text = trim s, completed = False,
                            completedAt = None, todo_v = 0\<rparr>))"
proof (intro conjI impI allI)
  assume "b ''text'' = None \<or> (\<exists>s. b ''text'' = Some (JStr s) \<and> trim s = [])"
  then have bad: "cast_text (b ''text'') = Absent \<or> cast_text (b ''text'') = Value []"
    by (auto simp: cast_text_def)
  then show "wire_status (snd (post_todos d b db fresh_res)) = Some 400"
    by (auto simp: post_todos_def Todo_save_def store_defs res_defs fresh_res_def)
  show "todos (fst (post_todos d b db fresh_res)) = todos db"
    using bad by (auto simp: post_todos_def Todo_save_def store_defs res_defs fresh_res_def)
next
  fix s
  assume a: "b ''text'' = Some (JStr s) \<and> trim s \<noteq> [] \<and> online db
     \<and> gen_id d \<notin> todo_id ` set (todos db)"
  have f: "find (by_id (gen_id d)) (todos db) = None"
    using a by (simp add: find_by_id_None)
  have run: "post_todos d b db fresh_res =
     (db\<lparr>todos := todos db @ [\<lparr>todo_id = gen_id d, todo_text = trim s, completed = False,
                                completedAt = None, todo_v = 0\<rparr>],
         calls := calls db @ [(TodoSave, False)],
         accesses := accesses db @ [TodoSave]\<rparr>,
      \<lparr>statusCode = 200, hdrs = [],
       wire = Some \<lparr>status = 200, headers = [],
                    body = Some (todo_json \<lparr>todo_id = gen_id d, todo_text = trim s,
                                            completed = False, completedAt = None,
                                            todo_v = 0\<rparr>)\<rparr>\<rparr>)"
    using a by (simp add: post_todos_def Todo_save_def store_defs cast_text_def f res_defs
        fresh_res_def)
  show "wire_status (snd (post_todos d b db fresh_res)) = Some 200"
    by (simp add: run wire_status_def)
  show "todos (fst (post_todos d b db fresh_res))
          = todos db @ [\<lparr>todo_id = gen_id d, todo_text = trim s, completed = False,
                          completedAt = None, todo_v = 0\<rparr>]"
    by (simp add: run)
  show "wire_body (snd (post_todos d b db fresh_res))
          = Some (todo_json \<lparr>todo_id = gen_id d, todo_text = trim s, completed = False,
                            completedAt = None, todo_v = 0\<rparr>)"
    by (simp add: run wire_body_def)
qed

theorem post_todos_create_witness:
  "wire_status (snd (post_todos example_deps Map.empty example_db fresh_res)) = Some 400
   \<and> length (todos (fst (post_todos example_deps Map.empty example_db fresh_res))) = 2
   \<and> wire_status (snd (post_todos example_deps [''text'' \<mapsto> JStr ''   ''] example_db fresh_res))
       = Some 400
   \<and> wire_status (snd (post_todos example_deps [''text'' \<mapsto> JStr [CHR 0xA0, CHR 0x09]]
        example_db fresh_res)) = Some 400
   \<and> wire_status (snd (post_todos example_deps [''text'' \<mapsto> JStr ''  Walk the dog '']
        example_db fresh_res)) = Some 200
   \<and> map todo_text (todos (fst (post_todos example_deps [''text'' \<mapsto> JStr ''  Walk the dog '']
        example_db fresh_res)))
       = [''First test todo'', ''Second test todo'', ''Walk the dog'']"
  using post_todos_create [of Map.empty example_deps example_db]
    post_todos_create [of "[''text'' \<mapsto> JStr ''   '']" example_deps example_db]
    post_todos_create [of "[''text'' \<mapsto> JStr [CHR 0xA0, CHR 0x09]]" example_deps example_db]
    post_todos_create [of "[''text'' \<mapsto> JStr ''  Walk the dog '']" example_deps example_db]
  by (simp add: trim_example) (simp add: example_db_def example_deps_def trim_def is_space_def)

subsection \<open>Users\<close>

lemma find_mem: "find P xs = Some x \<Longrightarrow> x \<in> set xs \<and> P x"
  by (induction xs) (auto split: if_splits)

lemma toHexString_5: "toHexString 5 = ''000000000000000000000005''"
  by code_simp

lemma toHexString_7: "toHexString 7 = ''000000000000000000000007''"
  by code_simp

lemma castObjectId_5: "castObjectId ''000000000000000000000005'' = Some 5"
  by (simp add: castObjectId_def is_hex_def hexval_def fromHex_def)

text \<open>What a 200 of the two routes that issue a token comes from: the whole outcome of the
  request.\<close>

lemma update_first_mem:
  "find P xs = Some y \<Longrightarrow> f y \<in> set (update_first P f xs)"
  by (induction xs) (auto split: if_splits)

lemma find_has_id:
  "x \<in> set xs \<Longrightarrow> \<exists>y. find (has_id (user_id x)) xs = Some y \<and> user_id y = user_id x"
  by (induction xs) (auto simp: has_id_def)

text \<open>The document the handler of \<^verbatim>\<open>POST /users\<close> builds: after \<^verbatim>\<open>_.pick\<close>, a
  generated id, no tokens, and the email and password of the body.\<close>

lemma User_new_pick:
  "User_new d (pick b [''email'', ''password'']) =
     \<lparr>doc_id = gen_id d, doc_email = cast_string (b ''email''),
      doc_password = cast_string (b ''password''), doc_tokens = [], doc_isNew = True,
      doc_invalid = False\<rparr>"
  by (simp add: User_new_def pick_apply cast_id_def cast_tokens_def)

lemma post_users_run:
  assumes "wire_status (snd (post_users d b db fresh_res)) = Some 200"
  shows "\<exists>e p. b ''email'' = Some (JStr e) \<and> b ''password'' = Some (JStr p) \<and>
         post_users d b db fresh_res =
          (db\<lparr>users := users db @
                  [\<lparr>user_id = gen_id d, email = e, password = bcrypt_hash d p,
                    tokens = [(''auth'', jwt_sign d (gen_id d) ''auth'')]\<rparr>],
              calls := calls db @ [(UserSave, False)],
              accesses := accesses db @ [UserSave]\<rparr>,
           \<lparr>statusCode = 200, hdrs = [(''x-auth'', jwt_sign d (gen_id d) ''auth'')],
            wire = Some \<lparr>status = 200, headers = [(''x-auth'', jwt_sign d (gen_id d) ''auth'')],
              body = Some (JObj [(''_id'', JStr (toHexString (gen_id d))),
                                 (''email'', JStr e)])\<rparr>\<rparr>)"
  using assms
  by (auto simp: post_users_def generateAuthToken_def User_save_def User_new_pick
      store_defs res_defs fresh_res_def post_users_then_def user_json_def cast_string_def
      split: casted.splits option.splits json.splits if_splits)

lemma post_users_login_run:
  assumes "wire_status (snd (post_users_login d b db fresh_res)) = Some 200"
  shows "\<exists>x \<in> set (users db).
         post_users_login d b db fresh_res =
          (db\<lparr>accesses := accesses db @ [UserFindByCredentials, UserSave],
              users := update_first (has_id (user_id x))
                  (\<lambda>y. y\<lparr>tokens := tokens x @ [(''auth'', jwt_sign d (user_id x) ''auth'')]\<rparr>)
                  (users db),
              calls := calls db @ [(UserFindByCredentials, False), (UserSave, False)]\<rparr>,
           \<lparr>statusCode = 200, hdrs = [(''x-auth'', jwt_sign d (user_id x) ''auth'')],
            wire = Some \<lparr>status = 200, headers = [(''x-auth'', jwt_sign d (user_id x) ''auth'')],
              body = Some (JObj [(''_id'', JStr (toHexString (user_id x))),
                                 (''email'', JStr (email x))])\<rparr>\<rparr>)"
  using assms
  by (auto simp: post_users_login_def User_findByCredentials_def generateAuthToken_def
      User_save_def load_user_def store_defs res_defs fresh_res_def post_users_login_then_def
      user_json_def
      split: casted.splits option.splits if_splits dest: find_mem)

lemma signup_example:
  "wire_status (snd (post_users example_deps
      [''email'' \<mapsto> JStr ''jen@example.com'', ''password'' \<mapsto> JStr ''123jkl''] example_db
      fresh_res)) = Some 200"
  by (simp add: post_users_def generateAuthToken_def User_save_def User_new_pick
      store_defs res_defs fresh_res_def post_users_then_def cast_string_def
      example_deps_def example_db_def has_id_def)

lemma login_example:
  "wire_status (snd (post_users_login example_deps
      [''email'' \<mapsto> JStr ''Andrew@Example.com'', ''password'' \<mapsto> JStr ''userOnePass''] example_db
      fresh_res)) = Some 200"
  by (simp add: post_users_login_def User_findByCredentials_def generateAuthToken_def
      User_save_def load_user_def store_defs res_defs fresh_res_def post_users_login_then_def
      pick_apply cast_string_def lower_def example_deps_def example_db_def)

text \<open>C7. For every successful (200) answer of \<^verbatim>\<open>POST /users\<close> and of
  \<^verbatim>\<open>POST /users/login\<close>, the body is the user record as its id and email, with no
  \<^verbatim>\<open>password\<close> and no \<^verbatim>\<open>tokens\<close> in it, and the \<^verbatim>\<open>x-auth\<close> header of the response holds
  the token issued for that user, which is the one now in the user's stored token list.\<close>

theorem users_token_response:
  "(wire_status (snd (post_users d b db fresh_res)) = Some 200 \<longrightarrow>
      (\<exists>e. b ''email'' = Some (JStr e)
         \<and> wire_body (snd (post_users d b db fresh_res))
             = Some (JObj [(''_id'', JStr (toHexString (gen_id d))), (''email'', JStr e)]))
      \<and> wire_header ''x-auth'' (snd (post_users d b db fresh_res))
          = Some (jwt_sign d (gen_id d) ''auth'')
      \<and> (\<exists>u \<in> set (users (fst (post_users d b db fresh_res))).
            user_id u = gen_id d \<and> (''auth'', jwt_sign d (gen_id d) ''auth'') \<in> set (tokens u))
      \<and> Option.bind (wire_body (snd (post_users d b db fresh_res))) (json_get ''password'') = None
      \<and> Option.bind (wire_body (snd (post_users d b db fresh_res))) (json_get ''tokens'') = None)
   \<and> (wire_status (snd (post_users_login d b db fresh_res)) = Some 200 \<longrightarrow>
      (\<exists>x \<in> set (users db).
         wire_body (snd (post_users_login d b db fresh_res))
           = Some (JObj [(''_id'', JStr (toHexString (user_id x))), (''email'', JStr (email x))])
         \<and> wire_header ''x-auth'' (snd (post_users_login d b db fresh_res))
             = Some (jwt_sign d (user_id x) ''auth'')
         \<and> (\<exists>u \<in> set (users (fst (post_users_login d b db fresh_res))).
               user_id u = user_id x
               \<and> (''auth'', jwt_sign d (user_id x) ''auth'') \<in> set (tokens u)))
      \<and> Option.bind (wire_body (snd (post_users_login d b db fresh_res))) (json_get ''password'')
          = None
      \<and> Option.bind (wire_body (snd (post_users_login d b db fresh_res))) (json_get ''tokens'')
          = None)"
proof (intro conjI impI)
  assume ok: "wire_status (snd (post_users d b db fresh_res)) = Some 200"
  from post_users_run [OF ok] obtain e p where e: "b ''email'' = Some (JStr e)"
    and run: "post_users d b db fresh_res =
          (db\<lparr>users := users db @
                  [\<lparr>user_id = gen_id d, email = e, password = bcrypt_hash d p,
                    tokens = [(''auth'', jwt_sign d (gen_id d) ''auth'')]\<rparr>],
              calls := calls db @ [(UserSave, False)],
              accesses := accesses db @ [UserSave]\<rparr>,
           \<lparr>statusCode = 200, hdrs = [(''x-auth'', jwt_sign d (gen_id d) ''auth'')],
            wire = Some \<lparr>status = 200, headers = [(''x-auth'', jwt_sign d (gen_id d) ''auth'')],
              body = Some (JObj [(''_id'', JStr (toHexString (gen_id d))),
                                 (''email'', JStr e)])\<rparr>\<rparr>)"
    by blast
  show "\<exists>e. b ''email'' = Some (JStr e)
         \<and> wire_body (snd (post_users d b db fresh_res))
             = Some (JObj [(''_id'', JStr (toHexString (gen_id d))), (''email'', JStr e)])"
    using e by (simp add: run wire_body_def)
  show "wire_header ''x-auth'' (snd (post_users d b db fresh_res))
          = Some (jwt_sign d (gen_id d) ''auth'')"
    by (simp add: run wire_header_def)
  show "\<exists>u \<in> set (users (fst (post_users d b db fresh_res))).
            user_id u = gen_id d \<and> (''auth'', jwt_sign d (gen_id d) ''auth'') \<in> set (tokens u)"
    by (simp add: run)
  show "Option.bind (wire_body (snd (post_users d b db fresh_res))) (json_get ''password'') = None"
    by (simp add: run wire_body_def)
  show "Option.bind (wire_body (snd (post_users d b db fresh_res))) (json_get ''tokens'') = None"
    by (simp add: run wire_body_def)
next
  assume ok: "wire_status (snd (post_users_login d b db fresh_res)) = Some 200"
  from post_users_login_run [OF ok] obtain x where x: "x \<in> set (users db)"
    and run: "post_users_login d b db fresh_res =
          (db\<lparr>accesses := accesses db @ [UserFindByCredentials, UserSave],
              users := update_first (has_id (user_id x))
                  (\<lambda>y. y\<lparr>tokens := tokens x @ [(''auth'', jwt_sign d (user_id x) ''auth'')]\<rparr>)
                  (users db),
              calls := calls db @ [(UserFindByCredentials, False), (UserSave, False)]\<rparr>,
           \<lparr>statusCode = 200, hdrs = [(''x-auth'', jwt_sign d (user_id x) ''auth'')],
            wire = Some \<lparr>status = 200, headers = [(''x-auth'', jwt_sign d (user_id x) ''auth'')],
              body = Some (JObj [(''_id'', JStr (toHexString (user_id x))),
                                 (''email'', JStr (email x))])\<rparr>\<rparr>)"
    by blast
  from find_has_id [OF x] obtain y where y: "find (has_id (user_id x)) (users db) = Some y"
    and ident: "user_id y = user_id x"
    by blast
  let ?f = "\<lambda>y. y\<lparr>tokens := tokens x @ [(''auth'', jwt_sign d (user_id x) ''auth'')]\<rparr>"
  have "?f y \<in> set (update_first (has_id (user_id x)) ?f (users db))"
    using y by (rule update_first_mem)
  then have stored: "\<exists>u \<in> set (users (fst (post_users_login d b db fresh_res))).
      user_id u = user_id x \<and> (''auth'', jwt_sign d (user_id x) ''auth'') \<in> set (tokens u)"
    unfolding run using ident by (intro bexI [of _ "?f y"]) simp_all
  have "wire_body (snd (post_users_login d b db fresh_res))
           = Some (JObj [(''_id'', JStr (toHexString (user_id x))), (''email'', JStr (email x))])
      \<and> wire_header ''x-auth'' (snd (post_users_login d b db fresh_res))
           = Some (jwt_sign d (user_id x) ''auth'')"
    by (simp add: run wire_body_def wire_header_def)
  then show "\<exists>x \<in> set (users db).
         wire_body (snd (post_users_login d b db fresh_res))
           = Some (JObj [(''_id'', JStr (toHexString (user_id x))), (''email'', JStr (email x))])
         \<and> wire_header ''x-auth'' (snd (post_users_login d b db fresh_res))
             = Some (jwt_sign d (user_id x) ''auth'')
         \<and> (\<exists>u \<in> set (users (fst (post_users_login d b db fresh_res))).
               user_id u = user_id x
               \<and> (''auth'', jwt_sign d (user_id x) ''auth'') \<in> set (tokens u))"
    using x stored by blast
  show "Option.bind (wire_body (snd (post_users_login d b db fresh_res))) (json_get ''password'')
          = None"
    by (simp add: run wire_body_def)
  show "Option.bind (wire_body (snd (post_users_login d b db fresh_res))) (json_get ''tokens'')
          = None"
    by (simp add: run wire_body_def)
qed

theorem users_token_response_witness:
  "wire_status (snd (post_users example_deps
      [''email'' \<mapsto> JStr ''jen@example.com'', ''password'' \<mapsto> JStr ''123jkl''] example_db
      fresh_res)) = Some 200
   \<and> wire_header ''x-auth'' (snd (post_users example_deps
      [''email'' \<mapsto> JStr ''jen@example.com'', ''password'' \<mapsto> JStr ''123jkl''] example_db
      fresh_res)) = Some ''000000000000000000000007.auth''
   \<and> wire_body (snd (post_users example_deps
      [''email'' \<mapsto> JStr ''jen@example.com'', ''password'' \<mapsto> JStr ''123jkl''] example_db
      fresh_res))
     = Some (JObj [(''_id'', JStr ''000000000000000000000007''), (''email'', JStr ''jen@example.com'')])
   \<and> wire_status (snd (post_users_login example_deps
      [''email'' \<mapsto> JStr ''Andrew@Example.com'', ''password'' \<mapsto> JStr ''userOnePass''] example_db
      fresh_res)) = Some 200
   \<and> wire_header ''x-auth'' (snd (post_users_login example_deps
      [''email'' \<mapsto> JStr ''Andrew@Example.com'', ''password'' \<mapsto> JStr ''userOnePass''] example_db
      fresh_res)) = Some ''000000000000000000000005.auth''
   \<and> wire_body (snd (post_users_login example_deps
      [''email'' \<mapsto> JStr ''Andrew@Example.com'', ''password'' \<mapsto> JStr ''userOnePass''] example_db
      fresh_res))
     = Some (JObj [(''_id'', JStr ''000000000000000000000005''),
                   (''email'', JStr ''andrew@example.com'')])"
  using users_token_response [THEN conjunct1, rule_format, OF signup_example]
    users_token_response [THEN conjunct2, rule_format, OF login_example]
  by (simp add: signup_example login_example)
     (simp add: example_deps_def example_db_def toHexString_5 toHexString_7)



text \<open>The document itself takes every path of the schema it is given: without the
  \<^verbatim>\<open>_.pick\<close> of the handler, a token list and an id in the body would be the new
  user's.\<close>

lemma new_User_takes_every_path:
  "doc_tokens (User_new example_deps
      [''tokens'' \<mapsto> JArr [JObj [(''access'', JStr ''auth''), (''token'', JStr ''forged'')]],
       ''_id'' \<mapsto> JStr ''000000000000000000000005'']) = [(''auth'', ''forged'')]
   \<and> doc_id (User_new example_deps
      [''tokens'' \<mapsto> JArr [JObj [(''access'', JStr ''auth''), (''token'', JStr ''forged'')]],
       ''_id'' \<mapsto> JStr ''000000000000000000000005'']) = 5
   \<and> doc_id (User_new example_deps Map.empty) = 7"
  by (simp add: User_new_def cast_id_def cast_tokens_def castObjectId_5 example_deps_def)

text \<open>C10. Of a \<^verbatim>\<open>POST /users\<close> body only \<^verbatim>\<open>email\<close> and \<^verbatim>\<open>password\<close> are taken: two bodies
  that agree on them give the same response and the same store, so a \<^verbatim>\<open>tokens\<close> array,
  an id or any other field the caller adds has no effect on the user created. It is the
  handler's \<^verbatim>\<open>_.pick\<close> that keeps them from the new document.\<close>

theorem post_users_frame:
  assumes "b1 ''email'' = b2 ''email''"
    and "b1 ''password'' = b2 ''password''"
  shows "post_users d b1 db r = post_users d b2 db r"
proof -
  have "pick b1 [''email'', ''password''] = pick b2 [''email'', ''password'']"
    using assms by (intro pick_cong) simp
  then show ?thesis
    by (simp add: post_users_def)
qed

theorem post_users_frame_witness:
  "post_users example_deps
      [''email'' \<mapsto> JStr ''jen@example.com'', ''password'' \<mapsto> JStr ''123jkl'',
       ''tokens'' \<mapsto> JArr [JObj [(''access'', JStr ''auth''), (''token'', JStr ''forged'')]],
       ''_id'' \<mapsto> JStr ''000000000000000000000005''] example_db fresh_res
   = post_users example_deps
      [''email'' \<mapsto> JStr ''jen@example.com'', ''password'' \<mapsto> JStr ''123jkl''] example_db
      fresh_res"
  using post_users_frame [of
      "[''email'' \<mapsto> JStr ''jen@example.com'', ''password'' \<mapsto> JStr ''123jkl'',
        ''tokens'' \<mapsto> JArr [JObj [(''access'', JStr ''auth''), (''token'', JStr ''forged'')]],
        ''_id'' \<mapsto> JStr ''000000000000000000000005'']"
      "[''email'' \<mapsto> JStr ''jen@example.com'', ''password'' \<mapsto> JStr ''123jkl'']"
      example_deps example_db fresh_res]
  by simp

subsection \<open>Status codes\<close>

lemma post_todos_answers: "answers db 400 (post_todos d b db fresh_res)"
  by (auto simp: answers_def post_todos_def Todo_save_def store_defs res_defs fresh_res_def
      split: casted.split)

lemma get_todos_answers: "answers db 400 (get_todos db fresh_res)"
  by (auto simp: answers_def get_todos_def Todo_find_def store_defs res_defs fresh_res_def)

lemma get_todos_id_answers: "answers db 404 (get_todos_id i db fresh_res)"
  by (auto simp: answers_def get_todos_id_def Todo_findById_def store_defs res_defs fresh_res_def
      get_todos_id_then_def split: option.split)

lemma delete_todos_id_answers: "answers db 404 (delete_todos_id i db fresh_res)"
  by (auto simp: answers_def delete_todos_id_def Todo_findByIdAndRemove_def store_defs res_defs
      fresh_res_def delete_todos_id_then_def split: option.split)

lemma patch_todos_id_answers: "answers db 400 (patch_todos_id d i b db fresh_res)"
  by (auto simp: answers_def patch_todos_id_def Todo_findByIdAndUpdate_def store_defs res_defs
      fresh_res_def patch_todos_id_then_def isValid_cast cast_set_patch_body apply_set_def
      split: option.split)

lemma post_users_answers: "answers db 400 (post_users d b db fresh_res)"
  by (auto simp: answers_def post_users_def generateAuthToken_def User_save_def User_new_pick
      store_defs res_defs fresh_res_def post_users_then_def
      split: casted.split)

lemma get_users_me_answers: "answers db 401 (get_users_me d t db fresh_res)"
  by (auto simp: answers_def get_users_me_def authenticate_def User_findByToken_def users_me_def
      store_defs res_defs fresh_res_def split: option.split)

lemma post_users_login_answers: "answers db 400 (post_users_login d b db fresh_res)"
  by (auto simp: answers_def post_users_login_def User_findByCredentials_def generateAuthToken_def
      User_save_def load_user_def store_defs res_defs fresh_res_def post_users_login_then_def
      split: casted.split option.split)

text \<open>C3, as stated, fails: when the store does not answer, \<^verbatim>\<open>GET /todos/:id\<close> sends the
  404 of its \<^verbatim>\<open>.catch\<close>, not a 400.\<close>

theorem store_failure_404_counterexample:
  "rejected example_deps (GetTodosId ''000000000000000000000001'') (example_db\<lparr>online := False\<rparr>)
   \<and> wire_status (snd (handle example_deps (GetTodosId ''000000000000000000000001'')
        (example_db\<lparr>online := False\<rparr>))) = Some 404
   \<and> wire_status (snd (handle example_deps (GetTodosId ''000000000000000000000001'')
        (example_db\<lparr>online := False\<rparr>))) \<noteq> Some 400"
  by (simp add: rejected_def get_todos_id_def isValid_cast castObjectId_1 Todo_findById_def store_defs
      res_defs fresh_res_def example_db_def)

text \<open>C3, amended. For every request the route handlers take, the status of the response
  is 200, 400, 401 or 404, never in the 5xx range; and whenever the store rejects an
  operation of the request, the status is 400 on \<^verbatim>\<open>POST /todos\<close>, \<^verbatim>\<open>GET /todos\<close>,
  \<^verbatim>\<open>PATCH /todos/:id\<close>, \<^verbatim>\<open>POST /users\<close> and \<^verbatim>\<open>POST /users/login\<close>, 404 on
  \<^verbatim>\<open>GET /todos/:id\<close> and \<^verbatim>\<open>DELETE /todos/:id\<close>, and 401 on \<^verbatim>\<open>GET /users/me\<close>.\<close>

theorem handle_status:
  "wire_status (snd (handle d req db)) \<in> Some ` {200, 400, 401, 404}
   \<and> (rejected d req db \<longrightarrow> wire_status (snd (handle d req db)) = Some (failure_status req))"
proof (cases req)
  case (PostTodos b)
  then show ?thesis
    using post_todos_answers [of db d b] by (simp add: answers_def rejected_def)
next
  case GetTodos
  then show ?thesis
    using get_todos_answers [of db] by (simp add: answers_def rejected_def)
next
  case (GetTodosId i)
  then show ?thesis
    using get_todos_id_answers [of db i] by (simp add: answers_def rejected_def)
next
  case (DeleteTodosId i)
  then show ?thesis
    using delete_todos_id_answers [of db i] by (simp add: answers_def rejected_def)
next
  case (PatchTodosId i b)
  then show ?thesis
    using patch_todos_id_answers [of db d i b] by (simp add: answers_def rejected_def)
next
  case (PostUsers b)
  then show ?thesis
    using post_users_answers [of db d b] by (simp add: answers_def rejected_def)
next
  case (GetUsersMe t)
  then show ?thesis
    using get_users_me_answers [of db d t] by (simp add: answers_def rejected_def)
next
  case (PostUsersLogin b)
  then show ?thesis
    using post_users_login_answers [of db d b] by (simp add: answers_def rejected_def)
qed

theorem handle_status_witness:
  "rejected example_deps (PatchTodosId ''000000000000000000000001'' Map.empty)
      (example_db\<lparr>online := False\<rparr>)
   \<and> wire_status (snd (handle example_deps (PatchTodosId ''000000000000000000000001'' Map.empty)
        (example_db\<lparr>online := False\<rparr>))) = Some 400
   \<and> rejected example_deps (DeleteTodosId ''000000000000000000000001'')
      (example_db\<lparr>online := False\<rparr>)
   \<and> wire_status (snd (handle example_deps (DeleteTodosId ''000000000000000000000001'')
        (example_db\<lparr>online := False\<rparr>))) = Some 404"
proof -
  have p: "rejected example_deps (PatchTodosId ''000000000000000000000001'' Map.empty)
      (example_db\<lparr>online := False\<rparr>)"
    by (simp add: rejected_def patch_todos_id_def isValid_cast castObjectId_1
        Todo_findByIdAndUpdate_def cast_set_patch_body cast_text_def store_defs res_defs
        fresh_res_def example_db_def)
  have q: "rejected example_deps (DeleteTodosId ''000000000000000000000001'')
      (example_db\<lparr>online := False\<rparr>)"
    by (simp add: rejected_def delete_todos_id_def isValid_cast castObjectId_1
        Todo_findByIdAndRemove_def store_defs res_defs fresh_res_def example_db_def)
  show ?thesis
    using handle_status [THEN conjunct2, rule_format, OF p]
      handle_status [THEN conjunct2, rule_format, OF q] p q
    by simp
qed

end
